theory Spec2Isabelle
  imports Main
begin

section \<open>Octree pad and depad operators (tensorflow/libs/octree\_pad\_op.cc)\<close>

text \<open>
  The file registers two TensorFlow operators, OctreePad and OctreeDepad, and implements
  their kernels. A kernel reads its \<open>depth\<close> attribute when it is constructed; each call
  points the octree parser at the octree input, reads the channel count and the node-axis
  length of the data input, checks the node-axis length against the octree, allocates the
  output and hands the buffers to \<open>pad_forward_gpu\<close> or \<open>pad_backward_gpu\<close>.

  Every way a call can stop early is a value of \<open>error\<close>; a call returns \<open>error + result\<close>.
\<close>

datatype error =
    InvalidArgument    \<comment> \<open>a TensorFlow status: \<open>GetAttr\<close> or \<open>ReplaceDim\<close> refused\<close>
  | ResourceExhausted  \<comment> \<open>a TensorFlow status: \<open>allocate_output\<close> refused\<close>
  | ConfigError        \<comment> \<open>\<open>CHECK_GE(depth, 1)\<close> of the constructor aborted\<close>
  | ShapeMismatch      \<comment> \<open>\<open>CHECK_EQ\<close> of a \<open>Compute\<close> aborted\<close>
  | ShapeCheck         \<comment> \<open>a check of \<open>TensorShape\<close> itself (\<open>dim_size\<close>, \<open>set_dim\<close>) aborted\<close>
  | NullOctree         \<comment> \<open>the octree parser was read before \<open>set_gpu\<close>\<close>
  | MemoryFault        \<comment> \<open>a kernel touched a cell outside a buffer\<close>

subsection \<open>Tensors\<close>

text \<open>
  A tensor is its shape (TensorFlow keeps axis lengths as 64-bit integers) and its flat,
  row-major buffer. The element type is \<open>float\<close> in the source; the operators only copy
  elements and write zero, so the model is polymorphic in a type with a \<open>0\<close>.
\<close>

record 'a Tensor =
  shape :: "int list"
  data :: "'a list"

text \<open>
  \<open>TensorShape::dim_size(d)\<close>: the length of axis \<open>d\<close>. TensorFlow checks the axis against
  the rank; an axis outside the rank stops the call.
\<close>

definition dim_size :: "int list \<Rightarrow> nat \<Rightarrow> error + int" where
  "dim_size s d = (if d < length s then Inr (s ! d) else Inl ShapeCheck)"

text \<open>\<open>TensorShape::set_dim(d, size)\<close>: checks the axis and that the size is not negative.\<close>

definition set_dim :: "int list \<Rightarrow> nat \<Rightarrow> int \<Rightarrow> error + int list" where
  "set_dim s d sz = (if d < length s \<and> 0 \<le> sz then Inr (s[d := sz]) else Inl ShapeCheck)"

text \<open>
  \<open>int x = shape.dim_size(d)\<close> stores a 64-bit axis length in a 32-bit \<open>int\<close>: the value
  kept is the low 32 bits, read as two's complement. It is the axis length itself
  exactly when the length is in the range of \<open>int\<close>.
\<close>

definition to_int :: "int \<Rightarrow> int" where
  "to_int v = signed_take_bit 31 v"

definition int_range :: "int \<Rightarrow> bool" where
  "int_range v \<longleftrightarrow> - (2 ^ 31) \<le> v \<and> v < 2 ^ 31"

text \<open>
  \<open>allocate_output(0, shape, &out)\<close> either refuses (a status) or hands out a buffer of
  as many cells as the shape has elements. The buffer is not initialised: what each cell
  holds is whatever the allocator's memory held, the function \<open>g\<close> below.
\<close>

type_synonym 'a allocator = "int list \<Rightarrow> (nat \<Rightarrow> 'a) option"

definition allocate_output :: "'a allocator \<Rightarrow> int list \<Rightarrow> error + 'a list" where
  "allocate_output alloc s =
     (case alloc s of
        None \<Rightarrow> Inl ResourceExhausted
      | Some g \<Rightarrow> Inr (map g [0..<nat (prod_list s)]))"

subsection \<open>The octree parser\<close>

text \<open>
  \<open>OctreeParser\<close> is declared in octree\_parser.h, outside this file. The kernels use
  three of its queries, each at a depth: \<open>info().node_num(depth)\<close>,
  \<open>info().node_num_nempty(depth)\<close> and \<open>children_gpu(depth)\<close>, a pointer to one \<open>int\<close> per
  node. The parser is taken as these three functions, whatever they are; the octree
  input of a call (an \<open>int8\<close> tensor) is taken as what the parser reads from it.
\<close>

record OctreeInfo =
  node_num :: "int \<Rightarrow> int"
  node_num_nempty :: "int \<Rightarrow> int"

record OctreeParser =
  info :: OctreeInfo
  children_gpu :: "int \<Rightarrow> int list"

subsection \<open>Construction\<close>

text \<open>
  \<open>OpKernelConstruction\<close> carries the attributes of the node; an \<open>int\<close> attribute is a
  64-bit value. \<open>GetAttr(name, &int32)\<close> fails with a status when the attribute is absent
  or does not fit 32 bits.
\<close>

record OpKernelConstruction =
  attr :: "string \<rightharpoonup> int"

definition GetAttr :: "OpKernelConstruction \<Rightarrow> string \<Rightarrow> error + int" where
  "GetAttr context name =
     (case attr context name of
        None \<Rightarrow> Inl InvalidArgument
      | Some v \<Rightarrow> if int_range v then Inr v else Inl InvalidArgument)"

record OctreePadBase =
  this_depth :: int
  this_octree :: "OctreeParser option"

text \<open>
  The constructor: \<open>OP_REQUIRES_OK\<close> returns on a failed \<open>GetAttr\<close>, then \<open>CHECK_GE\<close>
  aborts on a depth below 1. The parser member starts unset.
\<close>

definition OctreePadBase_init :: "OpKernelConstruction \<Rightarrow> error + OctreePadBase" where
  "OctreePadBase_init context =
     (case GetAttr context ''depth'' of
        Inl e \<Rightarrow> Inl e
      | Inr d \<Rightarrow>
          if 1 \<le> d then Inr \<lparr>this_depth = d, this_octree = None\<rparr>
          else Inl ConfigError)"

text \<open>The constructors of the two kernels run the base constructor and nothing else.\<close>

definition OctreePadOp_init :: "OpKernelConstruction \<Rightarrow> error + OctreePadBase" where
  "OctreePadOp_init context = OctreePadBase_init context"

definition OctreeDepadOp_init :: "OpKernelConstruction \<Rightarrow> error + OctreePadBase" where
  "OctreeDepadOp_init context = OctreePadBase_init context"

subsection \<open>Calls\<close>

text \<open>
  The context of a call holds the two inputs: the data tensor and the octree.
  \<open>set_octree_parser\<close> points the kernel's parser at the octree input, replacing whatever
  an earlier call left there.
\<close>

record 'a OpKernelContext =
  input0 :: "'a Tensor"
  input1 :: OctreeParser

definition set_octree_parser :: "OctreePadBase \<Rightarrow> 'a OpKernelContext \<Rightarrow> OctreePadBase" where
  "set_octree_parser k context = k\<lparr>this_octree := Some (input1 context)\<rparr>"

subsection \<open>The copy kernels\<close>

text \<open>
  Modelled from the spec: the memory accesses of the two copy kernels, which are defined
  outside this file. The kernels work on raw pointers, where a read or a write outside
  a buffer is undefined; the model stops with \<open>MemoryFault\<close>.
\<close>

definition load :: "'a list \<Rightarrow> int \<Rightarrow> error + 'a" where
  "load buf i = (if 0 \<le> i \<and> i < int (length buf) then Inr (buf ! nat i) else Inl MemoryFault)"

definition store :: "'a list \<Rightarrow> int \<Rightarrow> 'a \<Rightarrow> error + 'a list" where
  "store buf i v =
     (if 0 \<le> i \<and> i < int (length buf) then Inr (buf[nat i := v]) else Inl MemoryFault)"

text \<open>
  Modelled from the spec: the index loop of a kernel (the specification's "run over index
  range" primitive). The body runs at each index of the range, one index after the
  other, and the run stops at the first fault.
\<close>

fun kernel_loop :: "(nat \<Rightarrow> 's \<Rightarrow> error + 's) \<Rightarrow> nat list \<Rightarrow> 's \<Rightarrow> error + 's" where
  "kernel_loop body [] s = Inr s"
| "kernel_loop body (i # is) s =
     (case body i s of Inl e \<Rightarrow> Inl e | Inr s' \<Rightarrow> kernel_loop body is s')"

text \<open>
  Modelled from the spec: the sentinel test of the kernels. The specification: a sentinel
  value (e.g. negative), a reserved out-of-range integer, marks an empty node; any other
  value is the node's rank among the non-empty nodes. The model takes the value of the
  specification's scenario, \<open>-1\<close>.
\<close>

definition is_sentinel :: "int \<Rightarrow> bool" where
  "is_sentinel idx \<longleftrightarrow> idx = - 1"

text \<open>
  Modelled from the spec: the body of \<open>pad_forward_gpu\<close> at one cell of the dense buffer.
  The specification (PadTransform): dense slot \<open>h\<close> of channel \<open>c\<close> is \<open>0\<close> when \<open>children[h]\<close>
  is the sentinel and otherwise the compact slot \<open>children[h]\<close> of the same channel, copied
  unmodified. Buffers are laid out channel by channel: cell \<open>i\<close> of a buffer with \<open>H\<close> nodes
  is slot \<open>i mod H\<close> of channel \<open>i div H\<close>.
\<close>

definition pad_forward_kernel ::
  "nat \<Rightarrow> 'a::zero list \<Rightarrow> int \<Rightarrow> int list \<Rightarrow> nat \<Rightarrow> 'a list \<Rightarrow> error + 'a list" where
  "pad_forward_kernel Hy X Hx label i Y =
     (let h = i mod Hy; c = i div Hy in
      case load label (int h) of
        Inl e \<Rightarrow> Inl e
      | Inr idx \<Rightarrow>
          if is_sentinel idx then store Y (int i) 0
          else (case load X (int c * Hx + idx) of
                  Inl e \<Rightarrow> Inl e
                | Inr v \<Rightarrow> store Y (int i) v))"

text \<open>
  Modelled from the spec: \<open>pad_forward_gpu\<close>, declared in octree\_util.h and defined outside
  this file. The specification: a scatter that writes each dense cell exactly once. The
  arguments are those of the call in \<open>OctreePadOp::Compute\<close>: the dense buffer and its
  node count, the channel count, the compact buffer and its node count, the children
  index.
\<close>

definition pad_forward_gpu ::
  "'a::zero list \<Rightarrow> int \<Rightarrow> int \<Rightarrow> 'a list \<Rightarrow> int \<Rightarrow> int list \<Rightarrow> error + 'a list" where
  "pad_forward_gpu Y Hy Cy X Hx label =
     kernel_loop (pad_forward_kernel (nat Hy) X Hx label) [0..<nat Hy * nat Cy] Y"

text \<open>
  Modelled from the spec: the body of \<open>pad_backward_gpu\<close> at one cell of the dense buffer.
  The specification (DepadTransform): a filtered copy driven by iterating the dense
  slots; slot \<open>h\<close> of channel \<open>c\<close> is written to the compact slot \<open>children[h]\<close> of the same
  channel when \<open>children[h]\<close> is not the sentinel, and dropped otherwise.
\<close>

definition pad_backward_kernel ::
  "int \<Rightarrow> 'a list \<Rightarrow> nat \<Rightarrow> int list \<Rightarrow> nat \<Rightarrow> 'a list \<Rightarrow> error + 'a list" where
  "pad_backward_kernel Hx Y Hy label i X =
     (let h = i mod Hy; c = i div Hy in
      case load label (int h) of
        Inl e \<Rightarrow> Inl e
      | Inr idx \<Rightarrow>
          if is_sentinel idx then Inr X
          else (case load Y (int i) of
                  Inl e \<Rightarrow> Inl e
                | Inr v \<Rightarrow> store X (int c * Hx + idx) v))"

text \<open>
  Modelled from the spec: \<open>pad_backward_gpu\<close>, declared in octree\_util.h and defined
  outside this file. The arguments are those of the call in \<open>OctreeDepadOp::Compute\<close>: the
  compact buffer and its node count, the channel count, the dense buffer and its node
  count, the children index. Compact cells that no dense slot maps to are not written:
  they keep what the buffer held.
\<close>

definition pad_backward_gpu ::
  "'a list \<Rightarrow> int \<Rightarrow> int \<Rightarrow> 'a list \<Rightarrow> int \<Rightarrow> int list \<Rightarrow> error + 'a list" where
  "pad_backward_gpu X Hx Cx Y Hy label =
     kernel_loop (pad_backward_kernel Hx Y (nat Hy) label) [0..<nat Hy * nat Cx] X"

subsection \<open>OctreePadOp::Compute and OctreeDepadOp::Compute\<close>

text \<open>
  The steps are those of the source, in its order: set the parser, read \<open>channel\<close> and the
  node-axis length into \<open>int\<close>s, \<open>CHECK_EQ\<close> against the octree, build the output shape,
  allocate, run the kernel. The result is the kernel object after the call and the
  output tensor.
\<close>

definition OctreePadOp_Compute ::
  "'a::zero allocator \<Rightarrow> OctreePadBase \<Rightarrow> 'a OpKernelContext \<Rightarrow>
     error + (OctreePadBase \<times> 'a Tensor)" where
  "OctreePadOp_Compute alloc this context =
     (let this = set_octree_parser this context;
          btm_data = input0 context;
          btm_shape = shape btm_data in
      case dim_size btm_shape 1 of Inl e \<Rightarrow> Inl e | Inr d1 \<Rightarrow>
      case dim_size btm_shape 2 of Inl e \<Rightarrow> Inl e | Inr d2 \<Rightarrow>
      let channel = to_int d1;
          btm_h = to_int d2;
          depth = this_depth this in
      case this_octree this of None \<Rightarrow> Inl NullOctree | Some octree \<Rightarrow>
      if node_num_nempty (info octree) depth \<noteq> btm_h then Inl ShapeMismatch
      else
        let top_h = node_num (info octree) depth in
        case set_dim btm_shape 2 top_h of Inl e \<Rightarrow> Inl e | Inr top_shape \<Rightarrow>
        case allocate_output alloc top_shape of Inl e \<Rightarrow> Inl e | Inr top_ptr \<Rightarrow>
        case pad_forward_gpu top_ptr top_h channel (data btm_data) btm_h
               (children_gpu octree depth) of
          Inl e \<Rightarrow> Inl e
        | Inr top_out \<Rightarrow> Inr (this, \<lparr>shape = top_shape, data = top_out\<rparr>))"

definition OctreeDepadOp_Compute ::
  "'a allocator \<Rightarrow> OctreePadBase \<Rightarrow> 'a OpKernelContext \<Rightarrow>
     error + (OctreePadBase \<times> 'a Tensor)" where
  "OctreeDepadOp_Compute alloc this context =
     (let this = set_octree_parser this context;
          top_data = input0 context;
          top_shape = shape top_data in
      case dim_size top_shape 1 of Inl e \<Rightarrow> Inl e | Inr d1 \<Rightarrow>
      case dim_size top_shape 2 of Inl e \<Rightarrow> Inl e | Inr d2 \<Rightarrow>
      let channel = to_int d1;
          top_h = to_int d2;
          depth = this_depth this in
      case this_octree this of None \<Rightarrow> Inl NullOctree | Some octree \<Rightarrow>
      if node_num (info octree) depth \<noteq> top_h then Inl ShapeMismatch
      else
        let btm_h = node_num_nempty (info octree) depth in
        case set_dim top_shape 2 btm_h of Inl e \<Rightarrow> Inl e | Inr btm_shape \<Rightarrow>
        case allocate_output alloc btm_shape of Inl e \<Rightarrow> Inl e | Inr btm_ptr \<Rightarrow>
        case pad_backward_gpu btm_ptr btm_h channel (data top_data) top_h
               (children_gpu octree depth) of
          Inl e \<Rightarrow> Inl e
        | Inr btm_out \<Rightarrow> Inr (this, \<lparr>shape = btm_shape, data = btm_out\<rparr>))"

subsection \<open>Shape inference and registration\<close>

text \<open>
  A shape handle of the inference context is a list of dimensions, each known or not,
  or nothing when the rank itself is not known. Both operators declare two inputs and one
  output.
\<close>

type_synonym DimensionHandle = "int option"
type_synonym ShapeHandle = "DimensionHandle list option"

record InferenceContext =
  input_0 :: ShapeHandle
  input_1 :: ShapeHandle
  output_0 :: "ShapeHandle option"

definition UnknownDim :: DimensionHandle where
  "UnknownDim = None"

text \<open>
  \<open>InferenceContext::ReplaceDim(s, dim_index, new_dim, &out)\<close>: a shape of unknown rank
  stays unknown; a negative index counts from the end; an index outside the rank is an
  \<open>InvalidArgument\<close> status.
\<close>

definition ReplaceDim :: "ShapeHandle \<Rightarrow> int \<Rightarrow> DimensionHandle \<Rightarrow> error + ShapeHandle" where
  "ReplaceDim s dim_index_in new_dim =
     (case s of
        None \<Rightarrow> Inr None
      | Some dims \<Rightarrow>
          let dim_index =
                (if dim_index_in < 0 then int (length dims) + dim_index_in else dim_index_in)
          in if 0 \<le> dim_index \<and> dim_index < int (length dims)
             then Inr (Some (dims[nat dim_index := new_dim]))
             else Inl InvalidArgument)"

definition set_output :: "InferenceContext \<Rightarrow> ShapeHandle \<Rightarrow> InferenceContext" where
  "set_output c s = c\<lparr>output_0 := Some s\<rparr>"

definition pad_shape_fun :: "InferenceContext \<Rightarrow> error + InferenceContext" where
  "pad_shape_fun c =
     (let top_shape = input_0 c in
      case ReplaceDim top_shape 2 UnknownDim of
        Inl e \<Rightarrow> Inl e
      | Inr top_shape \<Rightarrow> Inr (set_output c top_shape))"

record OpDef =
  op_name :: string
  op_inputs :: "(string \<times> string) list"
  op_attrs :: "(string \<times> string) list"
  op_outputs :: "(string \<times> string) list"
  shape_fn :: "InferenceContext \<Rightarrow> error + InferenceContext"
  op_doc :: string

definition OctreePad :: OpDef where
  "OctreePad =
     \<lparr>op_name = ''OctreePad'',
      op_inputs = [(''btm_data'', ''float''), (''octree'', ''int8'')],
      op_attrs = [(''depth'', ''int'')],
      op_outputs = [(''top_data'', ''float'')],
      shape_fn = pad_shape_fun,
      op_doc = ''Octree padding operator.''\<rparr>"

definition OctreeDepad :: OpDef where
  "OctreeDepad =
     \<lparr>op_name = ''OctreeDepad'',
      op_inputs = [(''top_data'', ''float''), (''octree'', ''int8'')],
      op_attrs = [(''depth'', ''int'')],
      op_outputs = [(''btm_data'', ''float'')],
      shape_fn = pad_shape_fun,
      op_doc = ''Octree depadding operator.''\<rparr>"

section \<open>Vocabulary of the properties\<close>

text \<open>
  A feature tensor with \<open>C\<close> channels and \<open>H\<close> nodes: a batch axis of length 1, the channel
  axis, the node axis, any further axes of length 1, and one cell per channel and node.
  Both lengths are values of the \<open>int\<close> the source reads them into.
\<close>

definition feature_tensor :: "'a Tensor \<Rightarrow> int \<Rightarrow> int \<Rightarrow> bool" where
  "feature_tensor t C H \<longleftrightarrow>
     take 3 (shape t) = [1, C, H] \<and> list_all (\<lambda>d. d = 1) (drop 3 (shape t)) \<and>
     0 \<le> C \<and> C < 2 ^ 31 \<and> 0 \<le> H \<and> H < 2 ^ 31 \<and>
     int (length (data t)) = C * H"



text \<open>
  A children index of a level with \<open>N\<close> nodes, \<open>M \<le> N\<close> of them non-empty: one entry per
  node, each the sentinel or a rank below \<open>M\<close>; \<open>N\<close> is a value of \<open>int\<close>.
\<close>

definition children_index :: "int list \<Rightarrow> int \<Rightarrow> int \<Rightarrow> bool" where
  "children_index label N M \<longleftrightarrow>
     int (length label) = N \<and> N < 2 ^ 31 \<and> 0 \<le> M \<and> M \<le> N \<and>
     list_all (\<lambda>idx. is_sentinel idx \<or> (0 \<le> idx \<and> idx < M)) label"

text \<open>The bijection invariant: every rank in \<open>[0, M)\<close> is taken by exactly one entry.\<close>

definition ranks_once :: "int list \<Rightarrow> int \<Rightarrow> bool" where
  "ranks_once label M \<longleftrightarrow> list_all (\<lambda>k. count_list label k = 1) [0..M - 1]"

text \<open>What the pad kernel writes to cell \<open>i\<close> of its output, and the reads it needs.\<close>

definition pad_cell :: "nat \<Rightarrow> 'a::zero list \<Rightarrow> int \<Rightarrow> int list \<Rightarrow> nat \<Rightarrow> 'a" where
  "pad_cell Hy X Hx label i =
     (let idx = label ! (i mod Hy) in
      if is_sentinel idx then 0 else X ! nat (int (i div Hy) * Hx + idx))"

definition pad_reads_ok :: "nat \<Rightarrow> 'a list \<Rightarrow> int \<Rightarrow> int list \<Rightarrow> nat \<Rightarrow> bool" where
  "pad_reads_ok Hy X Hx label i \<longleftrightarrow>
     i mod Hy < length label \<and>
     (\<not> is_sentinel (label ! (i mod Hy)) \<longrightarrow>
        0 \<le> int (i div Hy) * Hx + label ! (i mod Hy) \<and>
        int (i div Hy) * Hx + label ! (i mod Hy) < int (length X))"

text \<open>
  Where the depad kernel writes at dense cell \<open>i\<close>, whether it writes at all, and the
  accesses it needs.
\<close>

definition depad_target :: "int \<Rightarrow> nat \<Rightarrow> int list \<Rightarrow> nat \<Rightarrow> int" where
  "depad_target Hx Hy label i = int (i div Hy) * Hx + label ! (i mod Hy)"

definition depad_writes :: "nat \<Rightarrow> int list \<Rightarrow> nat \<Rightarrow> bool" where
  "depad_writes Hy label i \<longleftrightarrow> \<not> is_sentinel (label ! (i mod Hy))"

definition depad_access_ok :: "int \<Rightarrow> 'a list \<Rightarrow> nat \<Rightarrow> int list \<Rightarrow> nat \<Rightarrow> nat \<Rightarrow> bool" where
  "depad_access_ok Hx Y Hy label len i \<longleftrightarrow>
     i mod Hy < length label \<and>
     (depad_writes Hy label i \<longrightarrow>
        i < length Y \<and> 0 \<le> depad_target Hx Hy label i \<and> depad_target Hx Hy label i < int len)"

section \<open>The scenario of the specification\<close>

text \<open>
  Depth 3 with \<open>N(3) = 5\<close> nodes, \<open>M(3) = 2\<close> of them non-empty, the children index
  \<open>[-1, 0, -1, 1, -1]\<close>, two channels, and the compact input \<open>[[1,2],[3,4]]\<close>, stored
  channel by channel. The allocator hands out cells that all hold 7.
\<close>

definition scenario_octree :: OctreeParser where
  "scenario_octree =
     \<lparr>info = \<lparr>node_num = (\<lambda>d. if d = 3 then 5 else 0),
              node_num_nempty = (\<lambda>d. if d = 3 then 2 else 0)\<rparr>,
      children_gpu = (\<lambda>d. if d = 3 then [- 1, 0, - 1, 1, - 1] else [])\<rparr>"

definition scenario_kernel :: OctreePadBase where
  "scenario_kernel = \<lparr>this_depth = 3, this_octree = None\<rparr>"

definition scenario_compact :: "int Tensor" where
  "scenario_compact = \<lparr>shape = [1, 2, 2], data = [1, 3, 2, 4]\<rparr>"

definition scenario_dense :: "int Tensor" where
  "scenario_dense = \<lparr>shape = [1, 2, 5], data = [0, 1, 0, 3, 0, 0, 2, 0, 4, 0]\<rparr>"

definition scenario_alloc :: "int allocator" where
  "scenario_alloc s = Some (\<lambda>i. 7)"


text \<open>
  Two tensors whose node-axis length is beyond the range of \<open>int\<close>: \<open>2^32 + 2\<close> nodes
  against \<open>M(3) = 2\<close>, and \<open>2^32 + 5\<close> nodes against \<open>N(3) = 5\<close>, one channel each, with one
  cell per node.
\<close>

definition wide_compact :: "int Tensor" where
  "wide_compact = \<lparr>shape = [1, 1, 4294967298], data = [1, 3] @ replicate 4294967296 0\<rparr>"

definition wide_dense :: "int Tensor" where
  "wide_dense = \<lparr>shape = [1, 1, 4294967301], data = [0, 1, 0, 3, 0] @ replicate 4294967296 0\<rparr>"

text \<open>The static shape of the dense tensor, for shape inference.\<close>

definition scenario_inference :: InferenceContext where
  "scenario_inference =
     \<lparr>input_0 = Some [Some 1, Some 2, Some 5], input_1 = None, output_0 = None\<rparr>"





section \<open>Properties of the copy kernels and of the calls\<close>

subsection \<open>The loops\<close>

lemma kernel_loop_append:
  "kernel_loop body (xs @ ys) s =
     (case kernel_loop body xs s of Inl e \<Rightarrow> Inl e | Inr s' \<Rightarrow> kernel_loop body ys s')"
  by (induction xs arbitrary: s) (auto split: sum.splits)




lemma pad_forward_kernel_ok:
  assumes "pad_reads_ok Hy X Hx label i" "i < length Y"
  shows "pad_forward_kernel Hy X Hx label i Y = Inr (Y[i := pad_cell Hy X Hx label i])"
  using assms
  by (simp add: pad_forward_kernel_def pad_reads_ok_def pad_cell_def load_def store_def Let_def)

lemma pad_forward_loop:
  assumes "n \<le> length Y" "\<forall>i<n. pad_reads_ok Hy X Hx label i"
  shows "kernel_loop (pad_forward_kernel Hy X Hx label) [0..<n] Y =
           Inr (map (\<lambda>i. if i < n then pad_cell Hy X Hx label i else Y ! i) [0..<length Y])"
  using assms
proof (induction n)
  case 0
  then show ?case by (simp add: map_nth)
next
  case (Suc n)
  let ?f = "\<lambda>m i. if i < m then pad_cell Hy X Hx label i else Y ! i"
  have IH: "kernel_loop (pad_forward_kernel Hy X Hx label) [0..<n] Y = Inr (map (?f n) [0..<length Y])"
    using Suc by simp
  have step: "pad_forward_kernel Hy X Hx label n (map (?f n) [0..<length Y]) =
                Inr ((map (?f n) [0..<length Y])[n := pad_cell Hy X Hx label n])"
    using Suc.prems by (intro pad_forward_kernel_ok) auto
  have upd: "(map (?f n) [0..<length Y])[n := pad_cell Hy X Hx label n] = map (?f (Suc n)) [0..<length Y]"
    by (rule nth_equalityI) (auto simp: nth_list_update less_Suc_eq)
  show ?case
    by (simp add: kernel_loop_append IH step upd)
qed

lemma pad_backward_kernel_ok:
  assumes "depad_access_ok Hx Y Hy label (length X) i"
  shows "pad_backward_kernel Hx Y Hy label i X =
           Inr (if depad_writes Hy label i then X[nat (depad_target Hx Hy label i) := Y ! i] else X)"
  using assms
  by (simp add: pad_backward_kernel_def depad_access_ok_def depad_writes_def depad_target_def
      load_def store_def Let_def)

lemma pad_backward_loop:
  assumes "\<forall>i<n. depad_access_ok Hx Y Hy label (length X) i"
    and "\<forall>i<n. \<forall>j<n. depad_writes Hy label i \<and> depad_writes Hy label j \<and>
            depad_target Hx Hy label i = depad_target Hx Hy label j \<longrightarrow> i = j"
  shows "\<exists>X'. kernel_loop (pad_backward_kernel Hx Y Hy label) [0..<n] X = Inr X' \<and>
           length X' = length X \<and>
           (\<forall>i<n. depad_writes Hy label i \<longrightarrow> X' ! nat (depad_target Hx Hy label i) = Y ! i) \<and>
           (\<forall>t<length X. (\<forall>i<n. depad_writes Hy label i \<longrightarrow> nat (depad_target Hx Hy label i) \<noteq> t)
              \<longrightarrow> X' ! t = X ! t)"
  using assms
proof (induction n)
  case 0
  then show ?case by simp
next
  case (Suc n)
  let ?w = "depad_writes Hy label" and ?t = "depad_target Hx Hy label"
  have p1: "\<forall>i<n. depad_access_ok Hx Y Hy label (length X) i"
    using Suc.prems(1) by simp
  have p2: "\<forall>i<n. \<forall>j<n. ?w i \<and> ?w j \<and> ?t i = ?t j \<longrightarrow> i = j"
    using Suc.prems(2) by simp
  from Suc.IH [OF p1 p2] obtain X1 where
    run: "kernel_loop (pad_backward_kernel Hx Y Hy label) [0..<n] X = Inr X1" and
    len: "length X1 = length X" and
    hit: "\<forall>i<n. ?w i \<longrightarrow> X1 ! nat (?t i) = Y ! i" and
    miss: "\<forall>t<length X. (\<forall>i<n. ?w i \<longrightarrow> nat (?t i) \<noteq> t) \<longrightarrow> X1 ! t = X ! t"
    by blast
  have ok: "depad_access_ok Hx Y Hy label (length X1) n"
    using Suc.prems(1) len by simp
  let ?X2 = "if ?w n then X1[nat (?t n) := Y ! n] else X1"
  have step: "pad_backward_kernel Hx Y Hy label n X1 = Inr ?X2"
    using pad_backward_kernel_ok [OF ok] .
  have bounds: "\<And>i. i < Suc n \<Longrightarrow> ?w i \<Longrightarrow> 0 \<le> ?t i \<and> ?t i < int (length X)"
    using Suc.prems(1) by (simp add: depad_access_ok_def)
  have distinct: "nat (?t i) \<noteq> nat (?t n)" if "i < n" "?w i" "?w n" for i
  proof -
    have "?t i \<noteq> ?t n"
    proof
      assume "?t i = ?t n"
      with Suc.prems(2) that have "i = n" by simp
      with that show False by simp
    qed
    moreover have "0 \<le> ?t i" "0 \<le> ?t n"
      using bounds that by simp_all
    ultimately show ?thesis by simp
  qed
  have r1: "kernel_loop (pad_backward_kernel Hx Y Hy label) [0..<Suc n] X = Inr ?X2"
    by (simp add: kernel_loop_append run step)
  have r2: "length ?X2 = length X"
    using len by simp
  have r3: "\<forall>i<Suc n. ?w i \<longrightarrow> ?X2 ! nat (?t i) = Y ! i"
  proof (intro allI impI)
    fix i assume i: "i < Suc n" "?w i"
    show "?X2 ! nat (?t i) = Y ! i"
    proof (cases "i = n")
      case True
      have "nat (?t n) < length X1"
        using bounds [of n] i True len by (simp add: nat_less_iff)
      with i True show ?thesis by simp
    next
      case False
      with i have lt: "i < n" by simp
      show ?thesis
      proof (cases "?w n")
        case True
        with distinct [OF lt i(2)] hit lt i show ?thesis by simp
      next
        case False
        with hit lt i show ?thesis by simp
      qed
    qed
  qed
  have r4: "\<forall>t<length X. (\<forall>i<Suc n. ?w i \<longrightarrow> nat (?t i) \<noteq> t) \<longrightarrow> ?X2 ! t = X ! t"
  proof (intro allI impI)
    fix t assume t: "t < length X" "\<forall>i<Suc n. ?w i \<longrightarrow> nat (?t i) \<noteq> t"
    then have "X1 ! t = X ! t" using miss by simp
    moreover have "?w n \<Longrightarrow> nat (?t n) \<noteq> t" using t by simp
    ultimately show "?X2 ! t = X ! t" by simp
  qed
  from r1 r2 r3 r4 show ?case by blast
qed



subsection \<open>Sizes, shapes and cells\<close>

text \<open>
  An axis length in the range of \<open>int\<close> is read as it is; beyond the range the value
  read differs from the axis length, which is why the properties below are stated for
  lengths in the range.
\<close>

lemma to_int_id: "int_range v \<Longrightarrow> to_int v = v"
  by (simp add: to_int_def int_range_def signed_take_bit_int_eq_self)

lemma to_int_wraps: "to_int (2 ^ 32 + 2) = 2"
  by (simp add: to_int_def)

lemma prod_list_ones: "list_all (\<lambda>d. d = (1::int)) xs \<Longrightarrow> prod_list xs = 1"
  by (induction xs) auto

lemma feature_tensor_shape:
  assumes "feature_tensor t C H"
  obtains rest where "shape t = 1 # C # H # rest" "prod_list rest = 1" "list_all (\<lambda>d. d = 1) rest"
proof -
  have "shape t = take 3 (shape t) @ drop 3 (shape t)" by simp
  also have "\<dots> = 1 # C # H # drop 3 (shape t)"
    using assms by (simp add: feature_tensor_def)
  finally have "shape t = 1 # C # H # drop 3 (shape t)" .
  moreover have "prod_list (drop 3 (shape t)) = 1" "list_all (\<lambda>d. d = 1) (drop 3 (shape t))"
    using assms by (simp_all add: feature_tensor_def prod_list_ones)
  ultimately show ?thesis using that by blast
qed







lemma split_index:
  fixes M a b :: int
  assumes "0 \<le> a" "a < M" "0 \<le> b" "b < M" "c * M + a = d * M + b"
  shows "c = d \<and> a = b"
proof -
  have e1: "(c * M + a) div M = c" using assms(1,2) by simp
  have e2: "(d * M + b) div M = d" using assms(3,4) by simp
  have "(c * M + a) div M = (d * M + b) div M" by (simp only: assms(5))
  then have "c = d" by (simp only: e1 e2)
  with assms(5) show ?thesis by simp
qed


subsection \<open>The children index and the bijection invariant\<close>

lemma children_index_nth:
  "children_index label N M \<Longrightarrow> i < length label \<Longrightarrow>
     is_sentinel (label ! i) \<or> (0 \<le> label ! i \<and> label ! i < M)"
  by (simp add: children_index_def list_all_length)

lemma children_index_slot:
  assumes ci: "children_index label N M" and i: "i < nat N * nat C"
  shows "i mod nat N < length label" "i div nat N < nat C" "0 < N" "0 < C"
proof -
  have N: "nat N = length label" using ci by (auto simp: children_index_def)
  have pos: "0 < nat N" "0 < nat C" using i by (cases "nat N"; cases "nat C"; simp)+
  show "i mod nat N < length label" using pos N by simp
  show "i div nat N < nat C"
    using i by (intro less_mult_imp_div_less) (simp add: mult.commute)
  show "0 < N" "0 < C" using pos by simp_all
qed


lemma ranks_once_count:
  "ranks_once label M \<Longrightarrow> 0 \<le> k \<Longrightarrow> k < M \<Longrightarrow> count_list label k = 1"
  by (simp add: ranks_once_def list_all_iff)



lemma count_list_one_inj:
  "count_list xs k = 1 \<Longrightarrow> i < length xs \<Longrightarrow> j < length xs \<Longrightarrow> xs ! i = k \<Longrightarrow> xs ! j = k
     \<Longrightarrow> i = j"
proof (induction xs arbitrary: i j)
  case Nil
  then show ?case by simp
next
  case (Cons x xs)
  show ?case
  proof (cases "x = k")
    case True
    with Cons.prems(1) have notin: "k \<notin> set xs"
      by (simp add: count_list_0_iff)
    have zero: "m = 0" if "m < length (x # xs)" "(x # xs) ! m = k" for m
    proof (cases m)
      case 0
      then show ?thesis .
    next
      case (Suc m')
      with that have "m' < length xs" "xs ! m' = k" by simp_all
      then have "k \<in> set xs" using nth_mem by blast
      with notin show ?thesis by simp
    qed
    from zero [OF Cons.prems(2,4)] zero [OF Cons.prems(3,5)] show ?thesis by simp
  next
    case False
    have suc: "\<exists>m'. m = Suc m' \<and> m' < length xs \<and> xs ! m' = k"
      if "m < length (x # xs)" "(x # xs) ! m = k" for m
      using that False by (cases m) simp_all
    from suc [OF Cons.prems(2,4)] obtain i' where i': "i = Suc i'" "i' < length xs" "xs ! i' = k"
      by blast
    from suc [OF Cons.prems(3,5)] obtain j' where j': "j = Suc j'" "j' < length xs" "xs ! j' = k"
      by blast
    have "count_list xs k = 1" using Cons.prems(1) False by simp
    from Cons.IH [OF this i'(2) j'(2) i'(3) j'(3)] i'(1) j'(1) show ?thesis by simp
  qed
qed


subsection \<open>The pad kernel on valid inputs\<close>

lemma pad_reads_ok_valid:
  assumes ci: "children_index label N M" and len: "int (length X) = C * M"
    and i: "i < nat N * nat C"
  shows "pad_reads_ok (nat N) X M label i"
proof -
  have N: "nat N = length label" using ci by (auto simp: children_index_def)
  have pos: "0 < length label" using i N by (cases "length label") auto
  have h: "i mod nat N < length label" using pos N by simp
  have c: "i div nat N < nat C"
    using i by (intro less_mult_imp_div_less) (simp add: mult.commute)
  have "0 \<le> int (i div nat N) * M + label ! (i mod nat N) \<and>
        int (i div nat N) * M + label ! (i mod nat N) < int (length X)"
    if ns: "\<not> is_sentinel (label ! (i mod nat N))"
  proof -
    let ?idx = "label ! (i mod nat N)" and ?c = "int (i div nat N)"
    have idx: "0 \<le> ?idx" "?idx < M"
      using ns children_index_nth [OF ci h] by simp_all
    then have M: "0 < M" by simp
    have "?c + 1 \<le> C" using c by simp
    then have "(?c + 1) * M \<le> C * M" using M by (intro mult_right_mono) simp_all
    moreover have "?c * M + ?idx < (?c + 1) * M" using idx by (simp add: algebra_simps)
    ultimately have "?c * M + ?idx < C * M" by linarith
    moreover have "0 \<le> ?c * M" using M by simp
    ultimately show ?thesis using idx len by simp
  qed
  with h show ?thesis by (simp add: pad_reads_ok_def)
qed

lemma pad_forward_gpu_valid:
  assumes ci: "children_index label N M" and len: "int (length X) = C * M"
    and Y: "length Y = nat N * nat C"
  shows "pad_forward_gpu Y N C X M label =
           Inr (map (pad_cell (nat N) X M label) [0..<nat N * nat C])"
proof -
  have "kernel_loop (pad_forward_kernel (nat N) X M label) [0..<nat N * nat C] Y =
          Inr (map (\<lambda>i. if i < nat N * nat C then pad_cell (nat N) X M label i else Y ! i)
                [0..<length Y])"
    using pad_reads_ok_valid [OF ci len] Y by (intro pad_forward_loop) simp_all
  also have "map (\<lambda>i. if i < nat N * nat C then pad_cell (nat N) X M label i else Y ! i)
               [0..<length Y] = map (pad_cell (nat N) X M label) [0..<nat N * nat C]"
    using Y by simp
  finally show ?thesis by (simp add: pad_forward_gpu_def)
qed



subsection \<open>The depad kernel on valid inputs\<close>

lemma depad_target_range:
  assumes ci: "children_index label N M" and i: "i < nat N * nat C"
    and w: "depad_writes (nat N) label i"
  shows "0 \<le> label ! (i mod nat N)" "label ! (i mod nat N) < M"
    "0 \<le> depad_target M (nat N) label i" "depad_target M (nat N) label i < C * M"
proof -
  let ?idx = "label ! (i mod nat N)" and ?c = "int (i div nat N)"
  note sl = children_index_slot [OF ci i]
  show idx: "0 \<le> ?idx" "?idx < M"
    using w children_index_nth [OF ci sl(1)] by (simp_all add: depad_writes_def)
  then have M: "0 < M" by simp
  have "?c + 1 \<le> C" using sl(2) by simp
  then have "(?c + 1) * M \<le> C * M" using M by (intro mult_right_mono) simp_all
  moreover have "?c * M + ?idx < (?c + 1) * M" using idx by (simp add: algebra_simps)
  ultimately show "depad_target M (nat N) label i < C * M"
    unfolding depad_target_def by linarith
  have "0 \<le> ?c * M" using M by simp
  then show "0 \<le> depad_target M (nat N) label i"
    unfolding depad_target_def using idx by linarith
qed

lemma depad_access_ok_valid:
  assumes ci: "children_index label N M" and lenY: "int (length Y) = C * N"
    and i: "i < nat N * nat C"
  shows "depad_access_ok M Y (nat N) label (nat (C * M)) i"
proof -
  note sl = children_index_slot [OF ci i]
  have "int i < int (nat N * nat C)" using i by (simp only: of_nat_less_iff)
  also have "\<dots> = C * N" using sl(3,4) by (simp add: mult.commute)
  finally have iY: "i < length Y" using lenY by simp
  have "0 \<le> depad_target M (nat N) label i \<and> depad_target M (nat N) label i < int (nat (C * M))"
    if w: "depad_writes (nat N) label i"
  proof -
    note r = depad_target_range [OF ci i w]
    from r(3,4) have "0 \<le> C * M" by linarith
    with r(3,4) show ?thesis by simp
  qed
  with sl(1) iY show ?thesis by (simp add: depad_access_ok_def)
qed

lemma depad_target_inj:
  assumes ci: "children_index label N M" and ro: "ranks_once label M"
    and i: "i < nat N * nat C" and j: "j < nat N * nat C"
    and wi: "depad_writes (nat N) label i" and wj: "depad_writes (nat N) label j"
    and eq: "depad_target M (nat N) label i = depad_target M (nat N) label j"
  shows "i = j"
proof -
  note ri = depad_target_range [OF ci i wi] and rj = depad_target_range [OF ci j wj]
  note si = children_index_slot [OF ci i] and sj = children_index_slot [OF ci j]
  have "int (i div nat N) = int (j div nat N) \<and> label ! (i mod nat N) = label ! (j mod nat N)"
    using eq unfolding depad_target_def
    by (intro split_index [OF ri(1,2) rj(1,2)])
  then have c: "i div nat N = j div nat N" and k: "label ! (i mod nat N) = label ! (j mod nat N)"
    by simp_all
  have "count_list label (label ! (j mod nat N)) = 1"
    using ranks_once_count [OF ro rj(1,2)] .
  from count_list_one_inj [OF this si(1) sj(1) k refl] have m: "i mod nat N = j mod nat N" .
  have "i = i div nat N * nat N + i mod nat N" by simp
  also have "\<dots> = j div nat N * nat N + j mod nat N" by (simp only: c m)
  also have "\<dots> = j" by simp
  finally show ?thesis .
qed

lemma pad_backward_gpu_valid:
  assumes ci: "children_index label N M" and ro: "ranks_once label M"
    and lenY: "int (length Y) = C * N" and lenX: "length X = nat (C * M)"
  shows "\<exists>X'. pad_backward_gpu X M C Y N label = Inr X' \<and> length X' = nat (C * M) \<and>
           (\<forall>i<nat N * nat C. depad_writes (nat N) label i \<longrightarrow>
              X' ! nat (depad_target M (nat N) label i) = Y ! i)"
proof -
  have a: "\<forall>i<nat N * nat C. depad_access_ok M Y (nat N) label (length X) i"
    using depad_access_ok_valid [OF ci lenY] lenX by simp
  have b: "\<forall>i<nat N * nat C. \<forall>j<nat N * nat C.
             depad_writes (nat N) label i \<and> depad_writes (nat N) label j \<and>
             depad_target M (nat N) label i = depad_target M (nat N) label j \<longrightarrow> i = j"
    using depad_target_inj [OF ci ro] by blast
  from pad_backward_loop [OF a b] lenX show ?thesis
    unfolding pad_backward_gpu_def by metis
qed





subsection \<open>The two calls\<close>

lemma pad_compute:
  assumes ft: "feature_tensor btm C M"
    and M: "M = node_num_nempty (info oct) (this_depth k)"
    and N: "N = node_num (info oct) (this_depth k)"
    and label: "label = children_gpu oct (this_depth k)"
    and ci: "children_index label N M"
    and al: "alloc ((shape btm)[2 := N]) = Some g"
  shows "OctreePadOp_Compute alloc k \<lparr>input0 = btm, input1 = oct\<rparr> =
           Inr (k\<lparr>this_octree := Some oct\<rparr>,
                \<lparr>shape = (shape btm)[2 := N],
                 data = map (pad_cell (nat N) (data btm) M label) [0..<nat N * nat C]\<rparr>)"
proof -
  from ft obtain rest where s: "shape btm = 1 # C # M # rest" and rest: "prod_list rest = 1"
    by (rule feature_tensor_shape)
  have rng: "int_range C" "int_range M" "0 \<le> C"
    using ft by (simp_all add: feature_tensor_def int_range_def)
  have N0: "0 \<le> N" using ci by (auto simp: children_index_def)
  have d1: "dim_size (shape btm) (Suc 0) = Inr C" and d2: "dim_size (shape btm) 2 = Inr M"
    by (simp_all add: dim_size_def s)
  have sd: "set_dim (shape btm) 2 N = Inr ((shape btm)[2 := N])"
    using N0 by (simp add: set_dim_def s)
  have pl: "nat (prod_list ((shape btm)[2 := N])) = nat N * nat C"
    using rest N0 rng by (simp add: s nat_mult_distrib mult.commute)
  have ao: "allocate_output alloc ((shape btm)[2 := N]) = Inr (map g [0..<nat N * nat C])"
    using al pl by (simp add: allocate_output_def)
  have len: "int (length (data btm)) = C * M"
    using ft by (simp add: feature_tensor_def)
  have run: "pad_forward_gpu (map g [0..<nat N * nat C]) N C (data btm) M label =
               Inr (map (pad_cell (nat N) (data btm) M label) [0..<nat N * nat C])"
    by (rule pad_forward_gpu_valid [OF ci len]) simp
  show ?thesis
    by (simp add: OctreePadOp_Compute_def set_octree_parser_def Let_def
        M [symmetric] N [symmetric] label [symmetric] d1 d2 to_int_id rng sd ao run)
qed

lemma depad_compute:
  assumes ft: "feature_tensor top_data C N"
    and M: "M = node_num_nempty (info oct) (this_depth k)"
    and N: "N = node_num (info oct) (this_depth k)"
    and label: "label = children_gpu oct (this_depth k)"
    and ci: "children_index label N M"
    and ro: "ranks_once label M"
    and al: "alloc ((shape top_data)[2 := M]) = Some g"
  shows "\<exists>X'. OctreeDepadOp_Compute alloc k \<lparr>input0 = top_data, input1 = oct\<rparr> =
             Inr (k\<lparr>this_octree := Some oct\<rparr>, \<lparr>shape = (shape top_data)[2 := M], data = X'\<rparr>) \<and>
           length X' = nat (C * M) \<and>
           (\<forall>i<nat N * nat C. depad_writes (nat N) label i \<longrightarrow>
              X' ! nat (depad_target M (nat N) label i) = data top_data ! i)"
proof -
  from ft obtain rest where s: "shape top_data = 1 # C # N # rest" and rest: "prod_list rest = 1"
    by (rule feature_tensor_shape)
  have rng: "int_range C" "int_range N" "0 \<le> C"
    using ft by (simp_all add: feature_tensor_def int_range_def)
  have M0: "0 \<le> M" using ci by (simp add: children_index_def)
  have d1: "dim_size (shape top_data) (Suc 0) = Inr C"
    and d2: "dim_size (shape top_data) 2 = Inr N"
    by (simp_all add: dim_size_def s)
  have sd: "set_dim (shape top_data) 2 M = Inr ((shape top_data)[2 := M])"
    using M0 by (simp add: set_dim_def s)
  have pl: "prod_list ((shape top_data)[2 := M]) = C * M"
    using rest by (simp add: s)
  have ao: "allocate_output alloc ((shape top_data)[2 := M]) = Inr (map g [0..<nat (C * M)])"
    using al pl by (simp add: allocate_output_def)
  have len: "int (length (data top_data)) = C * N"
    using ft by (simp add: feature_tensor_def)
  from pad_backward_gpu_valid [OF ci ro len, of "map g [0..<nat (C * M)]"]
  obtain X' where
    run: "pad_backward_gpu (map g [0..<nat (C * M)]) M C (data top_data) N label = Inr X'" and
    X': "length X' = nat (C * M)"
      "\<forall>i<nat N * nat C. depad_writes (nat N) label i \<longrightarrow>
         X' ! nat (depad_target M (nat N) label i) = data top_data ! i"
    by auto
  have "OctreeDepadOp_Compute alloc k \<lparr>input0 = top_data, input1 = oct\<rparr> =
          Inr (k\<lparr>this_octree := Some oct\<rparr>, \<lparr>shape = (shape top_data)[2 := M], data = X'\<rparr>)"
    by (simp add: OctreeDepadOp_Compute_def set_octree_parser_def Let_def
        M [symmetric] N [symmetric] label [symmetric] d1 d2 to_int_id rng sd ao run)
  with X' show ?thesis by blast
qed

lemma pad_mismatch:
  assumes "3 \<le> length (shape btm_data)" "int_range (shape btm_data ! 2)"
    and "shape btm_data ! 2 \<noteq> node_num_nempty (info octree) (this_depth this)"
  shows "OctreePadOp_Compute alloc this \<lparr>input0 = btm_data, input1 = octree\<rparr> = Inl ShapeMismatch"
  using assms
  by (simp add: OctreePadOp_Compute_def set_octree_parser_def dim_size_def Let_def to_int_id)

lemma depad_mismatch:
  assumes "3 \<le> length (shape top_data)" "int_range (shape top_data ! 2)"
    and "shape top_data ! 2 \<noteq> node_num (info octree) (this_depth this)"
  shows "OctreeDepadOp_Compute alloc this \<lparr>input0 = top_data, input1 = octree\<rparr> = Inl ShapeMismatch"
  using assms
  by (simp add: OctreeDepadOp_Compute_def set_octree_parser_def dim_size_def Let_def to_int_id)

lemma pad_output_shape:
  assumes "OctreePadOp_Compute alloc this \<lparr>input0 = btm_data, input1 = octree\<rparr> = Inr (this', top_data)"
  shows "shape top_data = (shape btm_data)[2 := node_num (info octree) (this_depth this)]"
    "2 < length (shape btm_data)" "0 \<le> node_num (info octree) (this_depth this)"
    "to_int (shape btm_data ! 2) = node_num_nempty (info octree) (this_depth this)"
    "this' = this\<lparr>this_octree := Some octree\<rparr>"
  using assms
  by (auto simp: OctreePadOp_Compute_def set_octree_parser_def dim_size_def set_dim_def Let_def
      split: if_splits sum.splits)

lemma depad_output_shape:
  assumes "OctreeDepadOp_Compute alloc this \<lparr>input0 = top_data, input1 = octree\<rparr> = Inr (this', btm_data)"
  shows "shape btm_data = (shape top_data)[2 := node_num_nempty (info octree) (this_depth this)]"
    "2 < length (shape top_data)" "0 \<le> node_num_nempty (info octree) (this_depth this)"
    "to_int (shape top_data ! 2) = node_num (info octree) (this_depth this)"
    "this' = this\<lparr>this_octree := Some octree\<rparr>"
  using assms
  by (auto simp: OctreeDepadOp_Compute_def set_octree_parser_def dim_size_def set_dim_def Let_def
      split: if_splits sum.splits)





text \<open>
  The shape checks of the two calls, for a node-axis length in the range of \<open>int\<close>: a
  length that differs from the octree's count stops the call with \<open>ShapeMismatch\<close>
  whatever the allocator would do; a length that equals it gives the output the other
  count as its node-axis length.
\<close>

lemma pad_shape_validation_in_range:
  fixes btm_data :: "'a::zero Tensor"
  assumes "depth = this_depth this"
    and "M = node_num_nempty (info octree) depth"
    and "N = node_num (info octree) depth"
    and "children = children_gpu octree depth"
    and rank: "3 \<le> length (shape btm_data)"
    and rng: "int_range (shape btm_data ! 2)"
  shows "(shape btm_data ! 2 \<noteq> M \<longrightarrow>
            (\<forall>alloc. OctreePadOp_Compute alloc this \<lparr>input0 = btm_data, input1 = octree\<rparr> =
                       Inl ShapeMismatch)) \<and>
         (shape btm_data ! 2 = M \<longrightarrow>
            (\<forall>alloc this' top_data.
               OctreePadOp_Compute alloc this \<lparr>input0 = btm_data, input1 = octree\<rparr> =
                 Inr (this', top_data) \<longrightarrow>
               length (shape top_data) = length (shape btm_data) \<and> shape top_data ! 2 = N) \<and>
            (\<forall>alloc g C.
               feature_tensor btm_data C M \<and> children_index children N M \<and>
               alloc ((shape btm_data)[2 := N]) = Some g \<longrightarrow>
               (\<exists>top_data.
                  OctreePadOp_Compute alloc this \<lparr>input0 = btm_data, input1 = octree\<rparr> =
                    Inr (this\<lparr>this_octree := Some octree\<rparr>, top_data) \<and>
                  shape top_data ! 2 = N)))"
proof (intro conjI impI allI)
  fix alloc :: "'a allocator"
  assume "shape btm_data ! 2 \<noteq> M"
  then show "OctreePadOp_Compute alloc this \<lparr>input0 = btm_data, input1 = octree\<rparr> =
               Inl ShapeMismatch"
    using assms by (intro pad_mismatch) simp_all
next
  fix alloc :: "'a allocator" and this' top_data
  assume run: "OctreePadOp_Compute alloc this \<lparr>input0 = btm_data, input1 = octree\<rparr> =
                 Inr (this', top_data)"
  from pad_output_shape(1) [OF run] show "length (shape top_data) = length (shape btm_data)"
    by simp
  from pad_output_shape(1,2) [OF run] assms(1,3) show "shape top_data ! 2 = N"
    by simp
next
  fix alloc :: "'a allocator" and g C
  assume v: "feature_tensor btm_data C M \<and> children_index children N M \<and>
             alloc ((shape btm_data)[2 := N]) = Some g"
  have e: "M = node_num_nempty (info octree) (this_depth this)"
    "N = node_num (info octree) (this_depth this)"
    "children = children_gpu octree (this_depth this)"
    using assms(1-4) by simp_all
  from v have ft: "feature_tensor btm_data C M" and ci: "children_index children N M"
    and al: "alloc ((shape btm_data)[2 := N]) = Some g"
    by simp_all
  have run: "OctreePadOp_Compute alloc this \<lparr>input0 = btm_data, input1 = octree\<rparr> =
          Inr (this\<lparr>this_octree := Some octree\<rparr>,
               \<lparr>shape = (shape btm_data)[2 := N],
                data = map (pad_cell (nat N) (data btm_data) M children) [0..<nat N * nat C]\<rparr>)"
    by (rule pad_compute [where alloc = alloc and g = g, OF ft e ci al])
  have "((shape btm_data)[2 := N]) ! 2 = N" using rank by simp
  with run show "\<exists>top_data.
      OctreePadOp_Compute alloc this \<lparr>input0 = btm_data, input1 = octree\<rparr> =
        Inr (this\<lparr>this_octree := Some octree\<rparr>, top_data) \<and> shape top_data ! 2 = N"
    by simp
qed

lemma depad_shape_validation_in_range:
  fixes top_data :: "'a Tensor"
  assumes "depth = this_depth this"
    and "M = node_num_nempty (info octree) depth"
    and "N = node_num (info octree) depth"
    and "children = children_gpu octree depth"
    and rank: "3 \<le> length (shape top_data)"
    and rng: "int_range (shape top_data ! 2)"
  shows "(shape top_data ! 2 \<noteq> N \<longrightarrow>
            (\<forall>alloc. OctreeDepadOp_Compute alloc this \<lparr>input0 = top_data, input1 = octree\<rparr> =
                       Inl ShapeMismatch)) \<and>
         (shape top_data ! 2 = N \<longrightarrow>
            (\<forall>alloc this' btm_data.
               OctreeDepadOp_Compute alloc this \<lparr>input0 = top_data, input1 = octree\<rparr> =
                 Inr (this', btm_data) \<longrightarrow>
               length (shape btm_data) = length (shape top_data) \<and> shape btm_data ! 2 = M) \<and>
            (\<forall>alloc g C.
               feature_tensor top_data C N \<and> children_index children N M \<and>
               ranks_once children M \<and> alloc ((shape top_data)[2 := M]) = Some g \<longrightarrow>
               (\<exists>btm_data.
                  OctreeDepadOp_Compute alloc this \<lparr>input0 = top_data, input1 = octree\<rparr> =
                    Inr (this\<lparr>this_octree := Some octree\<rparr>, btm_data) \<and>
                  shape btm_data ! 2 = M)))"
proof (intro conjI impI allI)
  fix alloc :: "'a allocator"
  assume "shape top_data ! 2 \<noteq> N"
  then show "OctreeDepadOp_Compute alloc this \<lparr>input0 = top_data, input1 = octree\<rparr> =
               Inl ShapeMismatch"
    using assms by (intro depad_mismatch) simp_all
next
  fix alloc :: "'a allocator" and this' btm_data
  assume run: "OctreeDepadOp_Compute alloc this \<lparr>input0 = top_data, input1 = octree\<rparr> =
                 Inr (this', btm_data)"
  from depad_output_shape(1) [OF run] show "length (shape btm_data) = length (shape top_data)"
    by simp
  from depad_output_shape(1,2) [OF run] assms(1,2) show "shape btm_data ! 2 = M"
    by simp
next
  fix alloc :: "'a allocator" and g C
  assume v: "feature_tensor top_data C N \<and> children_index children N M \<and>
             ranks_once children M \<and> alloc ((shape top_data)[2 := M]) = Some g"
  have e: "M = node_num_nempty (info octree) (this_depth this)"
    "N = node_num (info octree) (this_depth this)"
    "children = children_gpu octree (this_depth this)"
    using assms(1-4) by simp_all
  from v have ft: "feature_tensor top_data C N" and ci: "children_index children N M"
    and ro: "ranks_once children M" and al: "alloc ((shape top_data)[2 := M]) = Some g"
    by simp_all
  from depad_compute [where alloc = alloc and g = g, OF ft e ci ro al]
  obtain X' where
    run: "OctreeDepadOp_Compute alloc this \<lparr>input0 = top_data, input1 = octree\<rparr> =
            Inr (this\<lparr>this_octree := Some octree\<rparr>, \<lparr>shape = (shape top_data)[2 := M], data = X'\<rparr>)"
    by blast
  have "((shape top_data)[2 := M]) ! 2 = M" using rank by simp
  with run show "\<exists>btm_data.
      OctreeDepadOp_Compute alloc this \<lparr>input0 = top_data, input1 = octree\<rparr> =
        Inr (this\<lparr>this_octree := Some octree\<rparr>, btm_data) \<and> shape btm_data ! 2 = M"
    by simp
qed

subsection \<open>Construction and shape inference\<close>

lemma OctreePadBase_init_cases:
  assumes "attr context ''depth'' = Some d"
  shows "OctreePadBase_init context =
           (if \<not> int_range d then Inl InvalidArgument
            else if d < 1 then Inl ConfigError
            else Inr \<lparr>this_depth = d, this_octree = None\<rparr>)"
  using assms by (simp add: OctreePadBase_init_def GetAttr_def)

lemma OctreePadBase_init_absent:
  "attr context ''depth'' = None \<Longrightarrow> OctreePadBase_init context = Inl InvalidArgument"
  by (simp add: OctreePadBase_init_def GetAttr_def)

lemma depth_above_bound_accepted:
  assumes "1 \<le> d" "d < 2 ^ 31"
  shows "OctreePadBase_init \<lparr>attr = [''depth'' \<mapsto> d]\<rparr> = Inr \<lparr>this_depth = d, this_octree = None\<rparr>"
  using assms by (simp add: OctreePadBase_init_def GetAttr_def int_range_def)

lemma pad_shape_fun_known:
  assumes "input_0 c = Some dims" "2 < length dims"
  shows "pad_shape_fun c = Inr (c\<lparr>output_0 := Some (Some (dims[2 := None]))\<rparr>)"
  using assms by (simp add: pad_shape_fun_def ReplaceDim_def UnknownDim_def set_output_def Let_def)

lemma pad_shape_fun_low_rank:
  assumes "input_0 c = Some dims" "length dims \<le> 2"
  shows "pad_shape_fun c = Inl InvalidArgument"
  using assms by (simp add: pad_shape_fun_def ReplaceDim_def UnknownDim_def set_output_def Let_def)

lemma pad_shape_fun_unknown_rank:
  assumes "input_0 c = None"
  shows "pad_shape_fun c = Inr (c\<lparr>output_0 := Some None\<rparr>)"
  using assms by (simp add: pad_shape_fun_def ReplaceDim_def UnknownDim_def set_output_def)

subsection \<open>The scenario, evaluated\<close>

lemmas scenario_defs =
  scenario_octree_def scenario_kernel_def scenario_compact_def scenario_dense_def
  scenario_alloc_def

lemma upt_2: "[0..<2] = [0, 1 :: nat]"
  by code_simp

lemma upt_4: "[0..<4] = [0, 1, 2, 3 :: nat]"
  by code_simp

lemma upt_5: "[0..<5] = [0, 1, 2, 3, 4 :: nat]"
  by code_simp

lemma upt_10: "[0..<10] = [0, 1, 2, 3, 4, 5, 6, 7, 8, 9 :: nat]"
  by code_simp


lemma scenario_pad:
  "OctreePadOp_Compute scenario_alloc scenario_kernel
     \<lparr>input0 = scenario_compact, input1 = scenario_octree\<rparr> =
   Inr (scenario_kernel\<lparr>this_octree := Some scenario_octree\<rparr>, scenario_dense)"
  by (simp add: OctreePadOp_Compute_def set_octree_parser_def dim_size_def set_dim_def
      to_int_def allocate_output_def pad_forward_gpu_def pad_forward_kernel_def load_def
      store_def is_sentinel_def Let_def scenario_defs upt_10)

lemma scenario_depad:
  "OctreeDepadOp_Compute scenario_alloc scenario_kernel
     \<lparr>input0 = scenario_dense, input1 = scenario_octree\<rparr> =
   Inr (scenario_kernel\<lparr>this_octree := Some scenario_octree\<rparr>, scenario_compact)"
  by (simp add: OctreeDepadOp_Compute_def set_octree_parser_def dim_size_def set_dim_def
      to_int_def allocate_output_def pad_backward_gpu_def pad_backward_kernel_def load_def
      store_def is_sentinel_def Let_def scenario_defs upt_10 upt_4)


section \<open>Claims\<close>







text \<open>
  C4 (pad shape validation). The claim: a pad call whose input node-axis length differs
  from \<open>M(depth)\<close> fails with \<open>ShapeMismatch\<close> and produces no output. The source reads the
  length into an \<open>int\<close> before \<open>CHECK_EQ\<close> (\<open>int btm_h = btm_shape.dim_size(2)\<close>), so the
  check compares the low 32 bits. On a well-formed input of \<open>2^32 + 2\<close> nodes against
  \<open>M(3) = 2\<close> the check passes, and the call allocates and returns an output of node-axis
  length \<open>N(3) = 5\<close>.
\<close>

theorem pad_accepts_wrapped_node_axis:
  "int (length (data wide_compact)) = prod_list (shape wide_compact) \<and>
   shape wide_compact ! 2 = 4294967298 \<and>
   node_num_nempty (info scenario_octree) (this_depth scenario_kernel) = 2 \<and>
   OctreePadOp_Compute scenario_alloc scenario_kernel
     \<lparr>input0 = wide_compact, input1 = scenario_octree\<rparr> =
     Inr (scenario_kernel\<lparr>this_octree := Some scenario_octree\<rparr>,
          \<lparr>shape = [1, 1, 5], data = [0, 1, 0, 3, 0]\<rparr>)"
  by (simp add: wide_compact_def OctreePadOp_Compute_def set_octree_parser_def dim_size_def
      set_dim_def to_int_def allocate_output_def pad_forward_gpu_def pad_forward_kernel_def
      load_def store_def is_sentinel_def Let_def scenario_defs upt_5 nth_append)

text \<open>
  C5 (depad shape validation). The claim: a depad call whose input node-axis length
  differs from \<open>N(depth)\<close> fails with \<open>ShapeMismatch\<close> and produces no output. The source
  reads the length into an \<open>int\<close> before \<open>CHECK_EQ\<close> (\<open>int top_h = top_shape.dim_size(2)\<close>),
  so the check compares the low 32 bits. On a well-formed input of \<open>2^32 + 5\<close> nodes
  against \<open>N(3) = 5\<close> the check passes, and the call allocates and returns an output of
  node-axis length \<open>M(3) = 2\<close>.
\<close>

theorem depad_accepts_wrapped_node_axis:
  "int (length (data wide_dense)) = prod_list (shape wide_dense) \<and>
   shape wide_dense ! 2 = 4294967301 \<and>
   node_num (info scenario_octree) (this_depth scenario_kernel) = 5 \<and>
   OctreeDepadOp_Compute scenario_alloc scenario_kernel
     \<lparr>input0 = wide_dense, input1 = scenario_octree\<rparr> =
     Inr (scenario_kernel\<lparr>this_octree := Some scenario_octree\<rparr>,
          \<lparr>shape = [1, 1, 2], data = [1, 3]\<rparr>)"
  by (simp add: wide_dense_def OctreeDepadOp_Compute_def set_octree_parser_def dim_size_def
      set_dim_def to_int_def allocate_output_def pad_backward_gpu_def pad_backward_kernel_def
      load_def store_def is_sentinel_def Let_def scenario_defs upt_5 upt_2 nth_append)

text \<open>
  C6 (depth at construction). The claim as stated fails: the constructor checks
  \<open>depth \<ge> 1\<close> and nothing else, so a depth above any bound \<open>max_supported_depth\<close> below
  \<open>2^31 - 1\<close> is accepted at construction; with 8 for the bound, depth 9 is.
\<close>

theorem depth_upper_bound_counterexample:
  "\<not> (1 \<le> (9::int) \<and> (9::int) \<le> 8) \<and>
   OctreePadOp_init \<lparr>attr = [''depth'' \<mapsto> 9]\<rparr> = Inr \<lparr>this_depth = 9, this_octree = None\<rparr> \<and>
   OctreeDepadOp_init \<lparr>attr = [''depth'' \<mapsto> 9]\<rparr> = Inr \<lparr>this_depth = 9, this_octree = None\<rparr>"
  by (simp add: OctreePadOp_init_def OctreeDepadOp_init_def OctreePadBase_init_def GetAttr_def
      int_range_def)

text \<open>
  C6 as amended. Constructing either operator with a depth attribute below 1 is
  rejected at construction, before any call can run: by the fatal \<open>CHECK_GE\<close>, or by the
  status of \<open>GetAttr\<close> when the value does not fit an \<open>int\<close>. Every depth from 1 to
  \<open>2^31 - 1\<close> is accepted: construction checks no upper bound.
\<close>

theorem depth_checked_at_construction:
  assumes "attr context ''depth'' = Some d"
  shows "(d < 1 \<longrightarrow>
            OctreePadOp_init context = Inl (if int_range d then ConfigError else InvalidArgument) \<and>
            OctreeDepadOp_init context = Inl (if int_range d then ConfigError else InvalidArgument)) \<and>
         (1 \<le> d \<and> d < 2 ^ 31 \<longrightarrow>
            OctreePadOp_init context = Inr \<lparr>this_depth = d, this_octree = None\<rparr> \<and>
            OctreeDepadOp_init context = Inr \<lparr>this_depth = d, this_octree = None\<rparr>)"
  using OctreePadBase_init_cases [OF assms]
  by (auto simp: OctreePadOp_init_def OctreeDepadOp_init_def int_range_def)

theorem depth_checked_at_construction_witness:
  "attr \<lparr>attr = [''depth'' \<mapsto> 0]\<rparr> ''depth'' = Some 0 \<and> (0::int) < 1 \<and>
   OctreePadOp_init \<lparr>attr = [''depth'' \<mapsto> 0]\<rparr> = Inl ConfigError \<and>
   OctreeDepadOp_init \<lparr>attr = [''depth'' \<mapsto> 0]\<rparr> = Inl ConfigError \<and>
   attr \<lparr>attr = [''depth'' \<mapsto> 3]\<rparr> ''depth'' = Some 3 \<and> (1::int) \<le> 3 \<and> (3::int) < 2 ^ 31 \<and>
   OctreePadOp_init \<lparr>attr = [''depth'' \<mapsto> 3]\<rparr> = Inr \<lparr>this_depth = 3, this_octree = None\<rparr> \<and>
   OctreeDepadOp_init \<lparr>attr = [''depth'' \<mapsto> 3]\<rparr> = Inr \<lparr>this_depth = 3, this_octree = None\<rparr>"
proof -
  have a0: "attr \<lparr>attr = [''depth'' \<mapsto> 0]\<rparr> ''depth'' = Some 0"
    and a3: "attr \<lparr>attr = [''depth'' \<mapsto> 3]\<rparr> ''depth'' = Some 3"
    by simp_all
  from depth_checked_at_construction [OF a0] depth_checked_at_construction [OF a3] a0 a3
  show ?thesis by (simp add: int_range_def)
qed



text \<open>
  C8 (channel invariance). Every pad call and every depad call that produces an output
  gives it the rank of the input, the channel-axis length of the input, and the input's
  length on every axis but the node axis (axis 2).
\<close>

theorem channel_invariance:
  "(OctreePadOp_Compute alloc this \<lparr>input0 = btm_data, input1 = octree\<rparr> = Inr (this', top_data) \<longrightarrow>
      length (shape top_data) = length (shape btm_data) \<and>
      shape top_data ! 1 = shape btm_data ! 1 \<and>
      (\<forall>a<length (shape btm_data). a \<noteq> 2 \<longrightarrow> shape top_data ! a = shape btm_data ! a)) \<and>
   (OctreeDepadOp_Compute alloc' that \<lparr>input0 = top_data', input1 = octree'\<rparr> = Inr (that', btm_data') \<longrightarrow>
      length (shape btm_data') = length (shape top_data') \<and>
      shape btm_data' ! 1 = shape top_data' ! 1 \<and>
      (\<forall>a<length (shape top_data'). a \<noteq> 2 \<longrightarrow> shape btm_data' ! a = shape top_data' ! a))"
proof (intro conjI impI)
  assume run: "OctreePadOp_Compute alloc this \<lparr>input0 = btm_data, input1 = octree\<rparr> =
                 Inr (this', top_data)"
  note s = pad_output_shape(1) [OF run]
  show "length (shape top_data) = length (shape btm_data)" using s by simp
  show "shape top_data ! 1 = shape btm_data ! 1" using s by simp
  show "\<forall>a<length (shape btm_data). a \<noteq> 2 \<longrightarrow> shape top_data ! a = shape btm_data ! a"
    using s by simp
next
  assume run: "OctreeDepadOp_Compute alloc' that \<lparr>input0 = top_data', input1 = octree'\<rparr> =
                 Inr (that', btm_data')"
  note s = depad_output_shape(1) [OF run]
  show "length (shape btm_data') = length (shape top_data')" using s by simp
  show "shape btm_data' ! 1 = shape top_data' ! 1" using s by simp
  show "\<forall>a<length (shape top_data'). a \<noteq> 2 \<longrightarrow> shape btm_data' ! a = shape top_data' ! a"
    using s by simp
qed

theorem channel_invariance_witness:
  "OctreePadOp_Compute scenario_alloc scenario_kernel
     \<lparr>input0 = scenario_compact, input1 = scenario_octree\<rparr> =
     Inr (scenario_kernel\<lparr>this_octree := Some scenario_octree\<rparr>, scenario_dense) \<and>
   shape scenario_dense ! 1 = shape scenario_compact ! 1 \<and>
   OctreeDepadOp_Compute scenario_alloc scenario_kernel
     \<lparr>input0 = scenario_dense, input1 = scenario_octree\<rparr> =
     Inr (scenario_kernel\<lparr>this_octree := Some scenario_octree\<rparr>, scenario_compact) \<and>
   shape scenario_compact ! 1 = shape scenario_dense ! 1"
  using channel_invariance [of scenario_alloc scenario_kernel scenario_compact scenario_octree
      "scenario_kernel\<lparr>this_octree := Some scenario_octree\<rparr>" scenario_dense
      scenario_alloc scenario_kernel scenario_dense scenario_octree
      "scenario_kernel\<lparr>this_octree := Some scenario_octree\<rparr>" scenario_compact]
    scenario_pad scenario_depad
  by blast



text \<open>
  C10 (shared shape inference). Both registered operators carry the same shape function,
  \<open>pad_shape_fun\<close>; on a data input of known rank with a dimension 2 it sets output 0 to
  the input's shape with dimension 2 replaced by the unknown dimension, the rank and
  every other dimension unchanged.
\<close>

theorem shared_shape_inference:
  "shape_fn OctreePad = pad_shape_fun \<and> shape_fn OctreeDepad = pad_shape_fun \<and>
   (input_0 c = Some dims \<and> 2 < length dims \<longrightarrow>
      pad_shape_fun c = Inr (c\<lparr>output_0 := Some (Some (dims[2 := UnknownDim]))\<rparr>) \<and>
      length (dims[2 := UnknownDim]) = length dims \<and>
      dims[2 := UnknownDim] ! 2 = UnknownDim \<and>
      (\<forall>a<length dims. a \<noteq> 2 \<longrightarrow> dims[2 := UnknownDim] ! a = dims ! a))"
proof (intro conjI impI)
  show "shape_fn OctreePad = pad_shape_fun" by (simp add: OctreePad_def)
  show "shape_fn OctreeDepad = pad_shape_fun" by (simp add: OctreeDepad_def)
next
  assume a: "input_0 c = Some dims \<and> 2 < length dims"
  then show "pad_shape_fun c = Inr (c\<lparr>output_0 := Some (Some (dims[2 := UnknownDim]))\<rparr>)"
    using pad_shape_fun_known [of c dims] by (simp add: UnknownDim_def)
  show "length (dims[2 := UnknownDim]) = length dims" by simp
  show "dims[2 := UnknownDim] ! 2 = UnknownDim" using a by simp
  show "\<forall>a<length dims. a \<noteq> 2 \<longrightarrow> dims[2 := UnknownDim] ! a = dims ! a" by simp
qed

theorem shared_shape_inference_witness:
  "input_0 scenario_inference = Some [Some 1, Some 2, Some 5] \<and>
   2 < length [Some 1, Some 2, Some (5::int)] \<and>
   shape_fn OctreePad scenario_inference =
     Inr (scenario_inference\<lparr>output_0 := Some (Some [Some 1, Some 2, None])\<rparr>) \<and>
   shape_fn OctreeDepad scenario_inference =
     Inr (scenario_inference\<lparr>output_0 := Some (Some [Some 1, Some 2, None])\<rparr>)"
proof -
  have a: "input_0 scenario_inference = Some [Some 1, Some 2, Some 5]"
    "2 < length [Some 1, Some 2, Some (5::int)]"
    by (simp_all add: scenario_inference_def)
  from shared_shape_inference [of scenario_inference "[Some 1, Some 2, Some 5]"] a
  show ?thesis by (simp add: UnknownDim_def)
qed

end
